theory Spec2Isabelle
  imports Main
begin

section \<open>Text\<close>

text \<open>
  The scraper works on Python \<open>str\<close> values, sequences of code points. The alphabet of
  the model is Latin-1 and the rupee sign U+20B9, the one character beyond Latin-1 that
  \<open>medicine_scraper.py\<close> names: a character is one of the 256 Latin-1 code points
  (\<open>Chr\<close>) or the rupee sign (\<open>Rupee\<close>), and \<open>length\<close> counts code points as
  Python's \<open>len\<close> does. On this alphabet the classes below are the ones of Python 3:
  \<open>\d\<close> is \<open>0\<close>..\<open>9\<close>, \<open>\s\<close> and \<open>str.split()\<close> share one set of white
  space, \<open>str.lower()\<close> maps one character to one character, and two characters are
  equal under \<open>re.IGNORECASE\<close> when their lower cases are. Texts with other code
  points are outside the model.
\<close>

datatype pchar = Chr char | Rupee

type_synonym pstr = "pchar list"

definition asc :: "string \<Rightarrow> pstr" where
  "asc = map Chr"

definition lower_char :: "char \<Rightarrow> char" where
  "lower_char c =
     (let n = (of_char c :: nat)
      in if (65 \<le> n \<and> n \<le> 90) \<or> (192 \<le> n \<and> n \<le> 222 \<and> n \<noteq> 215)
         then char_of (n + 32) else c)"

fun lower_pchar :: "pchar \<Rightarrow> pchar" where
  "lower_pchar (Chr c) = Chr (lower_char c)"
| "lower_pchar Rupee = Rupee"

definition lower :: "pstr \<Rightarrow> pstr" where
  "lower = map lower_pchar"

fun is_space :: "pchar \<Rightarrow> bool" where
  "is_space (Chr c) =
     (let n = (of_char c :: nat)
      in (9 \<le> n \<and> n \<le> 13) \<or> (28 \<le> n \<and> n \<le> 32) \<or> n = 133 \<or> n = 160)"
| "is_space Rupee = False"

fun is_digit :: "pchar \<Rightarrow> bool" where
  "is_digit (Chr c) = (let n = (of_char c :: nat) in 48 \<le> n \<and> n \<le> 57)"
| "is_digit Rupee = False"

fun startswith :: "pstr \<Rightarrow> pstr \<Rightarrow> bool" where
  "startswith s [] = True"
| "startswith [] (p # ps) = False"
| "startswith (c # cs) (p # ps) = (c = p \<and> startswith cs ps)"

definition endswith :: "pstr \<Rightarrow> pstr \<Rightarrow> bool" where
  "endswith s p = startswith (rev s) (rev p)"

text \<open>\<open>contains sub s\<close> is Python's \<open>sub in s\<close>.\<close>

fun contains :: "pstr \<Rightarrow> pstr \<Rightarrow> bool" where
  "contains sub [] = (sub = [])"
| "contains sub (c # cs) = (startswith (c # cs) sub \<or> contains sub cs)"

text \<open>\<open>" ".join(s.split())\<close>: the words between runs of white space, joined by one space.\<close>

fun split_acc :: "pstr \<Rightarrow> pstr \<Rightarrow> pstr list" where
  "split_acc w [] = (if w = [] then [] else [w])"
| "split_acc w (c # cs) =
     (if is_space c then (if w = [] then split_acc [] cs else w # split_acc [] cs)
      else split_acc (w @ [c]) cs)"

definition split :: "pstr \<Rightarrow> pstr list" where
  "split s = split_acc [] s"

fun join_space :: "pstr list \<Rightarrow> pstr" where
  "join_space [] = []"
| "join_space [w] = w"
| "join_space (w # v # ws) = w @ Chr CHR '' '' # join_space (v # ws)"

definition NA :: pstr where
  "NA = asc ''N/A''"

section \<open>Regular expressions\<close>

text \<open>
  Python's \<open>re\<close> is a backtracking matcher: alternatives are tried from left to right, a
  greedy repetition tries one more iteration before it tries to stop, a lazy one the
  other way round, and the first way of matching that succeeds is the match. \<open>ms\<close>
  lists, in that order of preference, every way a pattern matches at the start of the
  remaining text; a state is the text still to read and the text of group 1. The flag is
  \<open>re.IGNORECASE\<close>.
\<close>

datatype re =
    Lit pchar
  | Dot
  | Digit
  | Space
  | OneOf "pchar list"
  | Eps
  | Seq re re
  | Alt re re
  | Star re
  | LazyStar re
  | Grp re
  | NotAhead re

type_synonym mstate = "pstr \<times> pstr"

fun atom :: "(pchar \<Rightarrow> bool) \<Rightarrow> mstate \<Rightarrow> mstate list" where
  "atom p ([], g) = []"
| "atom p (c # cs, g) = (if p c then [(cs, g)] else [])"

definition same_char :: "bool \<Rightarrow> pchar \<Rightarrow> pchar \<Rightarrow> bool" where
  "same_char ic a c = (if ic then lower_pchar a = lower_pchar c else a = c)"

function ms :: "bool \<Rightarrow> re \<Rightarrow> mstate \<Rightarrow> mstate list" where
  "ms ic (Lit a) s = atom (same_char ic a) s"
| "ms ic Dot s = atom (\<lambda>c. c \<noteq> Chr (CHR 0x0A)) s"
| "ms ic Digit s = atom is_digit s"
| "ms ic Space s = atom is_space s"
| "ms ic (OneOf cs) s = atom (\<lambda>c. list_ex (\<lambda>a. same_char ic a c) cs) s"
| "ms ic Eps s = [s]"
| "ms ic (Seq r1 r2) s = concat (map (ms ic r2) (ms ic r1 s))"
| "ms ic (Alt r1 r2) s = ms ic r1 s @ ms ic r2 s"
| "ms ic (Star r) s =
     concat (map (ms ic (Star r))
               (filter (\<lambda>t. length (fst t) < length (fst s)) (ms ic r s))) @ [s]"
| "ms ic (LazyStar r) s =
     s # concat (map (ms ic (LazyStar r))
                   (filter (\<lambda>t. length (fst t) < length (fst s)) (ms ic r s)))"
| "ms ic (Grp r) s =
     map (\<lambda>t. (fst t, take (length (fst s) - length (fst t)) (fst s))) (ms ic r s)"
| "ms ic (NotAhead r) s = (if ms ic r s = [] then [s] else [])"
  by pat_completeness auto
termination
  by (relation "inv_image (less_than <*lex*> less_than)
                  (\<lambda>(ic, r, s). (size r, length (fst s)))") auto

declare ms.simps [simp del]

fun str :: "pstr \<Rightarrow> re" where
  "str [] = Eps"
| "str (c # cs) = Seq (Lit c) (str cs)"

fun seqs :: "re list \<Rightarrow> re" where
  "seqs [] = Eps"
| "seqs (r # rs) = Seq r (seqs rs)"

fun alts :: "re list \<Rightarrow> re" where
  "alts [] = NotAhead Eps"
| "alts [r] = r"
| "alts (r # q # rs) = Alt r (alts (q # rs))"

definition Plus :: "re \<Rightarrow> re" where
  "Plus r = Seq r (Star r)"

definition Opt :: "re \<Rightarrow> re" where
  "Opt r = Alt r Eps"

text \<open>\<open>re.search\<close>: the match at the leftmost position that has one.\<close>

fun re_search :: "bool \<Rightarrow> re \<Rightarrow> pstr \<Rightarrow> mstate option" where
  "re_search ic r [] = (case ms ic r ([], []) of [] \<Rightarrow> None | t # _ \<Rightarrow> Some t)"
| "re_search ic r (c # cs) =
     (case ms ic r (c # cs, []) of [] \<Rightarrow> re_search ic r cs | t # _ \<Rightarrow> Some t)"

text \<open>\<open>match.group(1)\<close> of \<open>re.search\<close>.\<close>

definition search_group :: "bool \<Rightarrow> re \<Rightarrow> pstr \<Rightarrow> pstr option" where
  "search_group ic r s = map_option snd (re_search ic r s)"

text \<open>
  \<open>re.findall\<close> for a pattern with one group: the group of each match, the next search
  starting where the last match ended. Every pattern the scraper gives to \<open>findall\<close>
  reads at least two characters; the test on the lengths is what makes the recursion
  well founded.
\<close>

function findall :: "bool \<Rightarrow> re \<Rightarrow> pstr \<Rightarrow> pstr list" where
  "findall ic r [] = (case ms ic r ([], []) of [] \<Rightarrow> [] | t # _ \<Rightarrow> [snd t])"
| "findall ic r (c # cs) =
     (case ms ic r (c # cs, []) of
        [] \<Rightarrow> findall ic r cs
      | t # _ \<Rightarrow>
          snd t # (if length (fst t) < length (c # cs) then findall ic r (fst t)
                   else findall ic r cs))"
  by pat_completeness auto
termination
  by (relation "measure (\<lambda>(ic, r, s). length s)") auto

text \<open>The first pattern of a list that matches decides: \<open>for pattern in patterns: ... break\<close>.\<close>

fun first_group :: "bool \<Rightarrow> re list \<Rightarrow> pstr \<Rightarrow> pstr option" where
  "first_group ic [] s = None"
| "first_group ic (r # rs) s =
     (case search_group ic r s of None \<Rightarrow> first_group ic rs s | Some g \<Rightarrow> Some g)"

text \<open>\<open>(\d+(?:\.\d+)?)\<close>, the group of every price and quantity pattern.\<close>

definition number :: re where
  "number = Grp (Seq (Plus Digit) (Opt (Seq (Lit (Chr CHR ''.'')) (Plus Digit))))"

text \<open>A decimal: digits, or digits, a dot and digits.\<close>

definition is_decimal :: "pstr \<Rightarrow> bool" where
  "is_decimal v =
     (let a = takeWhile is_digit v; b = dropWhile is_digit v
      in a \<noteq> [] \<and> (b = [] \<or> (hd b = Chr CHR ''.'' \<and> tl b \<noteq> [] \<and> list_all is_digit (tl b))))"

text \<open>A pattern without a group leaves the text of group 1 as it is.\<close>

fun no_group :: "re \<Rightarrow> bool" where
  "no_group (Seq r1 r2) = (no_group r1 \<and> no_group r2)"
| "no_group (Alt r1 r2) = (no_group r1 \<and> no_group r2)"
| "no_group (Star r) = no_group r"
| "no_group (LazyStar r) = no_group r"
| "no_group (Grp r) = False"
| "no_group r = True"

definition ws :: re where
  "ws = Star Space"

text \<open>The rupee sign, \<open>\s*\<close> and the number: one currency amount.\<close>

definition rupee_amount :: re where
  "rupee_amount = seqs [Lit Rupee, ws, number]"

section \<open>Formatting a float with two decimals\<close>

text \<open>
  \<open>f"{float(v):.2f}"\<close> for a text \<open>v\<close> of digits, a dot and digits, which is what group 1
  of \<open>number\<close> holds when it contains a dot (lemma \<open>mrp_value_is_decimal\<close> below), so
  that \<open>float\<close> does not raise. \<open>float\<close> is the binary64 value nearest to
  the decimal, ties to the even significand; the format is the decimal with two
  places nearest to that binary value, ties to even. Both are computed on integers: the
  decimal is \<open>n / d\<close>, the float \<open>m * 2 ^ e\<close>.
\<close>

definition digit_val :: "pchar \<Rightarrow> int" where
  "digit_val c = (case c of Chr x \<Rightarrow> of_char x - 48 | Rupee \<Rightarrow> 0)"

definition digits_val :: "pstr \<Rightarrow> int" where
  "digits_val s = foldl (\<lambda>a c. 10 * a + digit_val c) 0 s"

definition digit_char :: "int \<Rightarrow> pchar" where
  "digit_char k = Chr (char_of (48 + k))"

function show_int :: "int \<Rightarrow> pstr" where
  "show_int k = (if k < 10 then [digit_char k] else show_int (k div 10) @ [digit_char (k mod 10)])"
  by pat_completeness auto
termination
  by (relation "measure nat") auto

function bits :: "int \<Rightarrow> int" where
  "bits k = (if k \<le> 0 then 0 else 1 + bits (k div 2))"
  by pat_completeness auto
termination
  by (relation "measure nat") auto

text \<open>\<open>a / b\<close> rounded to the nearest integer, a tie to the even one.\<close>

definition round_even :: "int \<Rightarrow> int \<Rightarrow> int" where
  "round_even a b =
     (let q = a div b; r = a mod b
      in if 2 * r < b then q else if b < 2 * r then q + 1 else if even q then q else q + 1)"

text \<open>
  The float nearest to \<open>n / d\<close> as significand and exponent, \<open>None\<close> for infinity.
  The exponent is the one that puts the significand in \<open>[2^52, 2^53)\<close>, and at least
  \<open>-1074\<close>, where the subnormal numbers start.
\<close>

definition to_float :: "int \<Rightarrow> int \<Rightarrow> (int \<times> int) option" where
  "to_float n d =
     (if n = 0 then Some (0, 0)
      else
        let e1 = bits n - bits d - 53;
            e2 = (if (if 0 \<le> e1 then n < d * 2 ^ nat e1 * 2 ^ 53
                      else n * 2 ^ nat (- e1) < d * 2 ^ 53) then e1 else e1 + 1);
            e = max e2 (- 1074);
            m = (if 0 \<le> e then round_even n (d * 2 ^ nat e)
                 else round_even (n * 2 ^ nat (- e)) d)
        in if 0 \<le> e \<and> 2 ^ 1024 \<le> m * 2 ^ nat e then None else Some (m, e))"

definition two_places :: "int \<Rightarrow> pstr" where
  "two_places h =
     show_int (h div 100) @ Chr CHR ''.'' # [digit_char (h mod 100 div 10), digit_char (h mod 10)]"

definition float_fmt2 :: "pstr \<Rightarrow> pstr" where
  "float_fmt2 v =
     (let int_part = takeWhile (\<lambda>c. c \<noteq> Chr CHR ''.'') v;
          frac_part = drop 1 (dropWhile (\<lambda>c. c \<noteq> Chr CHR ''.'') v)
      in case to_float (digits_val (int_part @ frac_part)) (10 ^ length frac_part) of
           None \<Rightarrow> asc ''inf''
         | Some (m, e) \<Rightarrow>
             two_places (if 0 \<le> e then m * 2 ^ nat e * 100
                         else round_even (m * 100) (2 ^ nat (- e))))"

section \<open>Prices\<close>

record price_info =
  pi_mrp :: pstr
  pi_discounted_price :: pstr

definition mrp_patterns :: "re list" where
  "mrp_patterns =
     [seqs [str (asc ''MRP''), ws, Lit Rupee, ws, number],
      seqs [str (asc ''MRP''), ws, str (asc ''Rs''), Opt (Lit (Chr CHR ''.'')), ws, number],
      seqs [str (asc ''Maximum Retail Price''), ws, Lit Rupee, ws, number]]"

definition discounted_patterns :: "re list" where
  "discounted_patterns =
     [seqs [str (asc ''Discounted Price:''), ws, Lit Rupee, ws, number],
      seqs [str (asc ''Offer Price:''), ws, Lit Rupee, ws, number],
      seqs [str (asc ''Best Price:''), ws, Lit Rupee, ws, number],
      seqs [str (asc ''Final Price:''), ws, Lit Rupee, ws, number],
      seqs [Lit Rupee, ws, number, ws, Lit (Chr CHR ''(''), LazyStar Dot, str (asc ''off''),
            LazyStar Dot, Lit (Chr CHR '')'')],
      seqs [Lit Rupee, ws, number, ws, str (asc ''after''), LazyStar Dot,
            str (asc ''discount'')]]"

text \<open>\<open>mrp_value.split('.')[1]\<close>: the text between the first dot and the next.\<close>

definition after_dot :: "pstr \<Rightarrow> pstr" where
  "after_dot v =
     takeWhile (\<lambda>c. c \<noteq> Chr CHR ''.'') (drop 1 (dropWhile (\<lambda>c. c \<noteq> Chr CHR ''.'') v))"

text \<open>
  \<open>parse_price_info\<close> in its four steps: the MRP patterns (with the clean-up of the
  decimal places), the discount patterns, the two amounts of a text that names
  \<open>MRP\<close>, and the copy of a lone price into the other field.
\<close>

definition labelled_mrp :: "pstr \<Rightarrow> pstr" where
  "labelled_mrp price_text =
     (case first_group True mrp_patterns price_text of
        None \<Rightarrow> NA
      | Some mrp_value \<Rightarrow>
          Rupee # (if Chr CHR ''.'' \<in> set mrp_value \<and> 2 < length (after_dot mrp_value)
                   then float_fmt2 mrp_value else mrp_value))"

definition labelled_discount :: "pstr \<Rightarrow> pstr" where
  "labelled_discount price_text =
     (case first_group True discounted_patterns price_text of
        None \<Rightarrow> NA
      | Some v \<Rightarrow> Rupee # v)"

definition both_prices :: "pstr \<Rightarrow> price_info \<Rightarrow> price_info" where
  "both_prices price_text p =
     (if contains (asc ''MRP'') price_text \<and> Rupee \<in> set price_text
      then (case findall False rupee_amount price_text of
              p0 # p1 # _ \<Rightarrow>
                \<lparr>pi_mrp = (if pi_mrp p = NA then Rupee # p0 else pi_mrp p),
                 pi_discounted_price =
                   (if pi_discounted_price p = NA then Rupee # p1 else pi_discounted_price p)\<rparr>
            | _ \<Rightarrow> p)
      else p)"

definition mirror :: "price_info \<Rightarrow> price_info" where
  "mirror p =
     (if pi_discounted_price p = NA \<and> pi_mrp p \<noteq> NA then p\<lparr>pi_discounted_price := pi_mrp p\<rparr>
      else if pi_mrp p = NA \<and> pi_discounted_price p \<noteq> NA then p\<lparr>pi_mrp := pi_discounted_price p\<rparr>
      else p)"

text \<open>The two fields before the last step, what the patterns found.\<close>

definition found_prices :: "pstr \<Rightarrow> price_info" where
  "found_prices price_text =
     (let t = join_space (split price_text)
      in both_prices t \<lparr>pi_mrp = labelled_mrp t, pi_discounted_price = labelled_discount t\<rparr>)"

definition parse_price_info :: "pstr \<Rightarrow> price_info" where
  "parse_price_info price_text = mirror (found_prices price_text)"

text \<open>
  \<open>clean_price_text\<close>: the one price of a text, the discounted one first. The step
  for a text that names \<open>MRP\<close> returns the second amount, or with one amount only
  the first amount after a word of discount; \<open>None\<close> is the source falling through
  to the patterns below.
\<close>

definition bare_discount :: re where
  "bare_discount = seqs [str (asc ''Discounted Price:''), ws, number]"

definition mrp_then_amount :: re where
  "mrp_then_amount = seqs [str (asc ''MRP''), LazyStar Dot, Lit Rupee, ws, number]"

definition other_price :: re where
  "other_price =
     seqs [alts [str (asc ''after''), str (asc ''off''), str (asc ''discount''), str (asc ''offer'')],
           LazyStar Dot, Lit Rupee, ws, number]"

definition not_before_mrp :: re where
  "not_before_mrp = NotAhead (Seq (Star Dot) (str (asc ''MRP'')))"

definition non_mrp_patterns :: "re list" where
  "non_mrp_patterns =
     [seqs [Lit Rupee, ws, number, not_before_mrp],
      seqs [str (asc ''Rs''), Opt (Lit (Chr CHR ''.'')), ws, number, not_before_mrp],
      seqs [str (asc ''INR''), ws, number, not_before_mrp]]"

definition any_currency :: re where
  "any_currency =
     seqs [OneOf [Rupee, Chr CHR ''R'', Chr CHR ''s''], Opt (Lit (Chr CHR ''.'')), ws, number]"

definition second_price :: "pstr \<Rightarrow> pstr option" where
  "second_price price_text =
     (if contains (asc ''MRP'') price_text \<and> Rupee \<in> set price_text
      then (case findall False rupee_amount price_text of
              [] \<Rightarrow> None
            | [p0] \<Rightarrow>
                (case re_search True mrp_then_amount price_text of
                   None \<Rightarrow> None
                 | Some _ \<Rightarrow>
                     (case findall True other_price price_text of
                        [] \<Rightarrow> None
                      | q # _ \<Rightarrow> Some (Rupee # q)))
            | p0 # p1 # _ \<Rightarrow> Some (Rupee # p1))
      else None)"

definition clean_price_text :: "pstr \<Rightarrow> pstr" where
  "clean_price_text text =
     (let price_text = join_space (split text)
      in case first_group True discounted_patterns price_text of
           Some v \<Rightarrow> Rupee # v
         | None \<Rightarrow>
        (case (if contains (asc ''Discounted Price:'') price_text
               then search_group True bare_discount price_text else None) of
           Some v \<Rightarrow> Rupee # v
         | None \<Rightarrow>
        (case second_price price_text of
           Some r \<Rightarrow> r
         | None \<Rightarrow>
        (case first_group True non_mrp_patterns price_text of
           Some v \<Rightarrow> Rupee # v
         | None \<Rightarrow>
        (case search_group True any_currency price_text of
           Some v \<Rightarrow> Rupee # v
         | None \<Rightarrow>
             if length price_text < 20 \<and> (Rupee \<in> set price_text \<or> contains (asc ''Rs'') price_text)
             then price_text else NA)))))"

section \<open>The parsed page\<close>

text \<open>
  The parsed page is BeautifulSoup's object, seen through what the scraper asks of it.
  An element gives its text as \<open>get_text(strip=True)\<close> returns it and its attributes as
  \<open>get\<close> does. \<open>select_one\<close> finds an element, finds none, or raises. A script of
  type \<open>application/ld+json\<close> is what \<open>json.loads\<close> makes of it and what the
  scraper then looks at: the \<open>image\<close> entry of a dictionary.
\<close>

record element =
  etext :: pstr
  eattr :: "string \<Rightarrow> pstr option"

datatype sel_result = SelRaises | SelNone | SelFound element

datatype ld_script =
    LdDecodeError
  | LdOtherError
  | LdNoImage
  | LdImage pstr
  | LdImageList "pstr option"

text \<open>
  \<open>LdDecodeError\<close>: \<open>json.loads\<close> raises \<open>JSONDecodeError\<close>; \<open>LdOtherError\<close>: it
  raises anything else (a script with no text). \<open>LdNoImage\<close>: the value is no dictionary,
  has no \<open>image\<close>, or its image is neither a text nor a list with an element.
  \<open>LdImageList\<close>: the first element of the list, \<open>None\<close> when it is not a text.
\<close>

record doc =
  select_one :: "pstr \<Rightarrow> sel_result"
  get_text :: pstr
  find_all_img :: "element list"
  find_all_ld_json :: "ld_script list"
  find_og_image :: "element option"

text \<open>\<open>urljoin\<close> of the standard library is a parameter; \<open>None\<close> when it raises.\<close>

type_synonym urljoin = "pstr \<Rightarrow> pstr \<Rightarrow> pstr option"

section \<open>Fields\<close>

fun extract_field :: "doc \<Rightarrow> pstr list \<Rightarrow> pstr" where
  "extract_field soup [] = NA"
| "extract_field soup (selector # selectors) =
     (case select_one soup selector of
        SelFound element \<Rightarrow>
          (let text = etext element
           in if text \<noteq> []
              then (if contains (asc ''price'') (lower selector) \<or> contains (asc ''Price'') selector
                    then (let text = clean_price_text text
                          in if text \<noteq> [] \<and> text \<noteq> NA then text else text)
                    else text)
              else extract_field soup selectors)
      | _ \<Rightarrow> extract_field soup selectors)"

section \<open>Quantity\<close>

definition quantity_selectors :: "pstr list" where
  "quantity_selectors = map asc
     [''.DrugHeader__pack-size'', ''.DrugHeader__quantity'', ''.ProductInfo__pack-size'',
      ''.ProductInfo__quantity'', ''.pack-size'', ''.quantity'', ''.tablet-count'',
      ''.strip-count'', ''[class*='pack']'', ''[class*='quantity']'', ''[class*='count']'',
      ''[class*='size']'']"

definition unit_word :: "string \<Rightarrow> re" where
  "unit_word w = Seq (str (asc w)) (Opt (Lit (Chr CHR ''s'')))"

definition quantity_re :: re where
  "quantity_re =
     seqs [number, ws,
           alts [unit_word ''tablet'', unit_word ''tab'', unit_word ''strip'',
                 unit_word ''capsule'', unit_word ''pill'']]"

definition quantity_patterns :: "re list" where
  "quantity_patterns =
     [seqs [number, ws, unit_word ''tablet'', ws, str (asc ''in''), ws, Plus Digit, ws,
            str (asc ''strip'')],
      seqs [number, ws, unit_word ''tablet''],
      seqs [number, ws, unit_word ''tab''],
      seqs [number, ws, unit_word ''strip''],
      seqs [number, ws, unit_word ''capsule''],
      seqs [number, ws, unit_word ''pill''],
      seqs [number, ws, unit_word ''piece'']]"

text \<open>\<open>if quantity_num.endswith('.0'): quantity_num = quantity_num[:-2]\<close>, then the unit.\<close>

definition tablets :: "pstr \<Rightarrow> pstr" where
  "tablets quantity_num =
     (if endswith quantity_num (asc ''.0'')
      then take (length quantity_num - 2) quantity_num else quantity_num) @ asc '' tablets''"

fun quantity_loop :: "doc \<Rightarrow> pstr list \<Rightarrow> pstr option" where
  "quantity_loop soup [] = None"
| "quantity_loop soup (selector # selectors) =
     (case select_one soup selector of
        SelFound element \<Rightarrow>
          (let text = etext element
           in if text \<noteq> []
              then (case search_group True quantity_re text of
                      Some quantity_num \<Rightarrow> Some (tablets quantity_num)
                    | None \<Rightarrow>
                        (case re_search False (Plus Digit) text of
                           Some _ \<Rightarrow> Some text
                         | None \<Rightarrow> quantity_loop soup selectors))
              else quantity_loop soup selectors)
      | _ \<Rightarrow> quantity_loop soup selectors)"

definition extract_quantity :: "doc \<Rightarrow> pstr" where
  "extract_quantity soup =
     (case quantity_loop soup quantity_selectors of
        Some q \<Rightarrow> q
      | None \<Rightarrow>
          (case first_group True quantity_patterns (get_text soup) of
             Some quantity_num \<Rightarrow> tablets quantity_num
           | None \<Rightarrow> NA))"

section \<open>Price of a page\<close>

definition price_containers :: "pstr list" where
  "price_containers = map asc
     [''.DrugPriceBox'', ''.PriceBox'', ''.DrugPrice'', ''.PriceBoxPlanOption'',
      ''.SubstituteItem__unit-price___MIbLo'', ''[class*='price']'', ''[class*='Price']'',
      ''[class*='cost']'', ''.price-display'', ''.price-container'', ''.pricing'']"

definition individual_selectors :: "pstr list" where
  "individual_selectors = map asc
     [''.DrugPriceBox__best-price___32JXw'', ''.DrugPriceBox__price'', ''.PriceBox__price'',
      ''.PriceBox__best-price'', ''.SubstituteItem__unit-price___MIbLo'',
      ''.PriceBoxPlanOption__offerPrice'', ''.PriceBoxPlanOption__price'',
      ''.DrugPrice__price'', ''.DrugPrice__best-price'', ''.style__price-tag'',
      ''.price-display'', ''.price'', ''.best-price'', ''.offer-price'', ''[class*='price']'',
      ''[class*='Price']'', ''[class*='cost']'']"

definition nothing_found :: "price_info \<Rightarrow> bool" where
  "nothing_found p = (pi_discounted_price p = NA \<and> pi_mrp p = NA)"

fun container_loop :: "doc \<Rightarrow> pstr list \<Rightarrow> price_info option" where
  "container_loop soup [] = None"
| "container_loop soup (container_selector # rest) =
     (case select_one soup container_selector of
        SelFound container \<Rightarrow>
          (let container_text = etext container
           in if container_text \<noteq> [] \<and>
                 (Rupee \<in> set container_text \<or> contains (asc ''Rs'') container_text)
              then (let p = parse_price_info container_text
                    in if nothing_found p then container_loop soup rest else Some p)
              else container_loop soup rest)
      | _ \<Rightarrow> container_loop soup rest)"

fun individual_loop :: "doc \<Rightarrow> pstr list \<Rightarrow> price_info option" where
  "individual_loop soup [] = None"
| "individual_loop soup (selector # rest) =
     (case select_one soup selector of
        SelFound element \<Rightarrow>
          (let text = etext element
           in if text \<noteq> []
              then (let p = parse_price_info text
                    in if nothing_found p then individual_loop soup rest else Some p)
              else individual_loop soup rest)
      | _ \<Rightarrow> individual_loop soup rest)"

definition extract_price_info :: "doc \<Rightarrow> price_info" where
  "extract_price_info soup =
     (case container_loop soup price_containers of
        Some p \<Rightarrow> p
      | None \<Rightarrow>
          (case individual_loop soup individual_selectors of
             Some p \<Rightarrow> p
           | None \<Rightarrow> \<lparr>pi_mrp = NA, pi_discounted_price = NA\<rparr>))"

section \<open>Image\<close>

definition image_selectors :: "pstr list" where
  "image_selectors = map asc
     [''img[class*='product-image']'', ''img[class*='ProductImage']'',
      ''img[class*='medicine-image']'', ''img[class*='drug-image']'', ''.ProductImage img'',
      ''.ProductImage__image img'', ''.DrugImage img'', ''.MedicineImage img'',
      ''.product-photo img'', ''.product-image img'', ''.medicine-photo img'',
      ''.drug-photo img'', ''img.style__product-image___3CRoG'', ''.product-image img'',
      ''.medicine-image'', ''.product-photo img'', ''img[src*='1mg']'', ''img[data-src*='1mg']'',
      ''img[alt*='medicine']'', ''img[alt*='drug']'', ''img[alt*='product']'']"

definition image_exts :: "pstr list" where
  "image_exts = map asc [''.jpg'', ''.jpeg'', ''.png'', ''.webp'', ''.gif'']"

text \<open>\<open>any(ext in img_src.lower() for ext in [...])\<close>\<close>

definition has_image_ext :: "pstr \<Rightarrow> bool" where
  "has_image_ext img_src = list_ex (\<lambda>ext. contains ext (lower img_src)) image_exts"

text \<open>\<open>tag.get(a1) or tag.get(a2) or ...\<close>, when the result is not empty.\<close>

fun first_attr :: "element \<Rightarrow> string list \<Rightarrow> pstr option" where
  "first_attr tag [] = None"
| "first_attr tag (a # as) =
     (case eattr tag a of
        Some v \<Rightarrow> (if v \<noteq> [] then Some v else first_attr tag as)
      | None \<Rightarrow> first_attr tag as)"

text \<open>The clean-up of the URL in the loop over the selectors.\<close>

definition clean_url :: "urljoin \<Rightarrow> pstr \<Rightarrow> pstr \<Rightarrow> pstr option" where
  "clean_url uj base_url img_src =
     (if startswith img_src (asc ''//'') then Some (asc ''https:'' @ img_src)
      else if startswith img_src (asc ''/'') then uj base_url img_src
      else if startswith img_src (asc ''http'') then Some img_src
      else uj base_url img_src)"

text \<open>The clean-up of the three fallbacks, which leave a relative URL as it is.\<close>

definition absolute_url :: "urljoin \<Rightarrow> pstr \<Rightarrow> pstr \<Rightarrow> pstr option" where
  "absolute_url uj base_url src =
     (if startswith src (asc ''//'') then Some (asc ''https:'' @ src)
      else if startswith src (asc ''/'') then uj base_url src
      else Some src)"

fun image_loop :: "urljoin \<Rightarrow> doc \<Rightarrow> pstr \<Rightarrow> pstr list \<Rightarrow> pstr option" where
  "image_loop uj soup base_url [] = None"
| "image_loop uj soup base_url (selector # selectors) =
     (case select_one soup selector of
        SelFound img_tag \<Rightarrow>
          (case first_attr img_tag [''src'', ''data-src'', ''data-lazy-src'', ''data-original''] of
             Some img_src \<Rightarrow>
               (case clean_url uj base_url img_src of
                  Some u \<Rightarrow> (if has_image_ext u then Some u
                             else image_loop uj soup base_url selectors)
                | None \<Rightarrow> image_loop uj soup base_url selectors)
           | None \<Rightarrow> image_loop uj soup base_url selectors)
      | _ \<Rightarrow> image_loop uj soup base_url selectors)"

text \<open>
  In the fallbacks an exception leaves the whole step (\<open>except Exception: pass\<close>):
  \<open>None\<close> is both the loop that found nothing and the step that was left.
\<close>

fun any_img_loop :: "urljoin \<Rightarrow> pstr \<Rightarrow> element list \<Rightarrow> pstr option" where
  "any_img_loop uj base_url [] = None"
| "any_img_loop uj base_url (img # imgs) =
     (case first_attr img [''src'', ''data-src''] of
        Some src \<Rightarrow>
          (if contains (asc ''1mg'') src \<and> has_image_ext src then absolute_url uj base_url src
           else any_img_loop uj base_url imgs)
      | None \<Rightarrow> any_img_loop uj base_url imgs)"

fun ld_json_loop :: "urljoin \<Rightarrow> pstr \<Rightarrow> ld_script list \<Rightarrow> pstr option" where
  "ld_json_loop uj base_url [] = None"
| "ld_json_loop uj base_url (LdDecodeError # scripts) = ld_json_loop uj base_url scripts"
| "ld_json_loop uj base_url (LdOtherError # scripts) = None"
| "ld_json_loop uj base_url (LdNoImage # scripts) = ld_json_loop uj base_url scripts"
| "ld_json_loop uj base_url (LdImage img_url # scripts) = absolute_url uj base_url img_url"
| "ld_json_loop uj base_url (LdImageList None # scripts) = None"
| "ld_json_loop uj base_url (LdImageList (Some img_url) # scripts) =
     absolute_url uj base_url img_url"

definition og_image :: "urljoin \<Rightarrow> doc \<Rightarrow> pstr \<Rightarrow> pstr option" where
  "og_image uj soup base_url =
     (case find_og_image soup of
        Some meta_image \<Rightarrow>
          (case first_attr meta_image [''content''] of
             Some img_url \<Rightarrow> absolute_url uj base_url img_url
           | None \<Rightarrow> None)
      | None \<Rightarrow> None)"

definition extract_image :: "urljoin \<Rightarrow> doc \<Rightarrow> pstr \<Rightarrow> pstr" where
  "extract_image uj soup base_url =
     (case image_loop uj soup base_url image_selectors of
        Some u \<Rightarrow> u
      | None \<Rightarrow>
     (case any_img_loop uj base_url (find_all_img soup) of
        Some u \<Rightarrow> u
      | None \<Rightarrow>
     (case ld_json_loop uj base_url (find_all_ld_json soup) of
        Some u \<Rightarrow> u
      | None \<Rightarrow>
     (case og_image uj soup base_url of
        Some u \<Rightarrow> u
      | None \<Rightarrow> NA))))"

section \<open>One page\<close>

record page_record =
  name :: pstr
  mrp :: pstr
  discounted_price :: pstr
  price :: pstr
  quantity :: pstr
  image :: pstr
  manufacturer :: pstr
  composition :: pstr
  url :: pstr
  status :: pstr

definition create_error_record :: "pstr \<Rightarrow> pstr \<Rightarrow> page_record" where
  "create_error_record u error_msg =
     \<lparr>name = asc ''Error'', mrp = asc ''Error'', discounted_price = asc ''Error'',
      price = asc ''Error'', quantity = asc ''Error'', image = asc ''Error'',
      manufacturer = asc ''Error'', composition = asc ''Error'', url = u,
      status = error_msg\<rparr>"

definition name_selectors :: "pstr list" where
  "name_selectors = map asc
     [''.DrugHeader__title'', ''.DrugHeader__name'', ''.ProductInfo__title'',
      ''.ProductInfo__name'', ''h1[class*='DrugHeader']'', ''h1[class*='ProductInfo']'',
      ''h1[class*='title']'', ''h1[class*='name']'', ''h1'', ''.style__product-name'',
      ''.medicine-name'', ''.drug-name'', ''.product-title'', ''[class*='title']'',
      ''[class*='name']'']"

definition manufacturer_selectors :: "pstr list" where
  "manufacturer_selectors = map asc
     [''.DrugHeader__manufacturer'', ''.DrugHeader__brand-name'', ''.DrugHeader__company'',
      ''.ProductInfo__manufacturer'', ''.ProductInfo__brand'', ''.manufacturer'',
      ''.brand-name'', ''.company-name'', ''.drug-manufacturer'', ''.medicine-brand'',
      ''[class*='manufacturer']'', ''[class*='brand']'', ''[class*='company']'']"

definition composition_selectors :: "pstr list" where
  "composition_selectors = map asc
     [''.DrugHeader__salt-info'', ''.DrugHeader__composition'', ''.ProductInfo__composition'',
      ''.ProductInfo__salt'', ''.salt-info'', ''.composition'', ''.medicine-composition'',
      ''.drug-composition'', ''.salt-composition'', ''[class*='salt']'',
      ''[class*='composition']'', ''[class*='ingredient']'']"

text \<open>
  What the \<open>try\<close> block of \<open>scrape_medicine\<close> meets before it extracts: a
  \<open>requests.exceptions.RequestException\<close> (the request fails, or \<open>raise_for_status\<close>
  does), any other \<open>Exception\<close> (from \<open>time.sleep\<close>, the decoding of the response or
  the parser), each with the text of \<open>str(e)\<close>, or the parsed page. The extractors
  catch what they raise, so nothing is raised after the page is parsed.
\<close>

datatype fetched = RequestException pstr | OtherException pstr | Soup doc

definition scrape_medicine :: "urljoin \<Rightarrow> fetched \<Rightarrow> pstr \<Rightarrow> page_record" where
  "scrape_medicine uj response u =
     (case response of
        RequestException e \<Rightarrow> create_error_record u (asc ''Network error: '' @ e)
      | OtherException e \<Rightarrow> create_error_record u (asc ''Parsing error: '' @ e)
      | Soup soup \<Rightarrow>
          (let price_info = extract_price_info soup
           in \<lparr>name = extract_field soup name_selectors,
                mrp = pi_mrp price_info,
                discounted_price = pi_discounted_price price_info,
                price = pi_discounted_price price_info,
                quantity = extract_quantity soup,
                image = extract_image uj soup u,
                manufacturer = extract_field soup manufacturer_selectors,
                composition = extract_field soup composition_selectors,
                url = u,
                status = asc ''Success''\<rparr>))"

section \<open>The batch\<close>

text \<open>
  The world of a batch: what the \<open>i\<close>-th request meets, and whether writing the
  progress file after the \<open>i\<close>-th page raises (\<open>Some\<close> of \<open>str(e)\<close>) or not. The
  JSON copy of the progress is written under a \<open>try\<close> of its own that only logs, and
  Python's logging does not raise, so neither is part of the world.
\<close>

record world =
  urljoin_of :: urljoin
  fetch :: "nat \<Rightarrow> pstr \<Rightarrow> fetched"
  to_csv :: "nat \<Rightarrow> page_record list \<Rightarrow> pstr option"

fun batch_loop :: "world \<Rightarrow> bool \<Rightarrow> nat \<Rightarrow> pstr list \<Rightarrow> page_record list \<Rightarrow> page_record list"
  where
  "batch_loop w save_progress i [] results = results"
| "batch_loop w save_progress i (u # urls) results =
     (let result = scrape_medicine (urljoin_of w) (fetch w i u) u;
          results = results @ [result]
      in if save_progress \<and> i mod 5 = 0
         then (case to_csv w i results of
                 None \<Rightarrow> batch_loop w save_progress (i + 1) urls results
               | Some e \<Rightarrow>
                   batch_loop w save_progress (i + 1) urls (results @ [create_error_record u e]))
         else batch_loop w save_progress (i + 1) urls results)"

definition scrape_medicines_batch :: "world \<Rightarrow> pstr list \<Rightarrow> bool \<Rightarrow> page_record list" where
  "scrape_medicines_batch w urls save_progress =
     (if urls = [] then [] else batch_loop w save_progress 1 urls [])"

section \<open>Example pages and worlds\<close>

definition no_attr :: "string \<Rightarrow> pstr option" where
  "no_attr a = None"

definition empty_page :: doc where
  "empty_page =
     \<lparr>select_one = (\<lambda>s. SelNone), get_text = [], find_all_img = [],
      find_all_ld_json = [], find_og_image = None\<rparr>"

definition no_urljoin :: urljoin where
  "no_urljoin base_url u = None"

definition five_urls :: "pstr list" where
  "five_urls = map asc
     [''https://www.1mg.com/drugs/a-1'', ''https://www.1mg.com/drugs/b-2'',
      ''https://www.1mg.com/drugs/c-3'', ''https://www.1mg.com/drugs/d-4'',
      ''https://www.1mg.com/drugs/e-5'']"

text \<open>
  A world where every page is fetched and parsed, and where the progress file
  \<open>progress_backup_5.csv\<close> cannot be written.
\<close>

definition csv_denied :: world where
  "csv_denied =
     \<lparr>urljoin_of = no_urljoin,
      fetch = (\<lambda>i u. Soup empty_page),
      to_csv = (\<lambda>i rs. if i = 5 then Some (asc ''Permission denied'') else None)\<rparr>"

text \<open>A world where the second request times out and every file is written.\<close>

definition one_timeout :: world where
  "one_timeout =
     \<lparr>urljoin_of = no_urljoin,
      fetch = (\<lambda>i u. if i = 2 then RequestException (asc ''timed out'') else Soup empty_page),
      to_csv = (\<lambda>i rs. None)\<rparr>"

definition elem :: "string \<Rightarrow> element" where
  "elem t = \<lparr>etext = asc t, eattr = no_attr\<rparr>"

definition img :: "string \<Rightarrow> element" where
  "img src = \<lparr>etext = [], eattr = (\<lambda>a. if a = ''src'' then Some (asc src) else None)\<rparr>"

text \<open>A page whose \<open>.price\<close> element holds no price and whose title is found.\<close>

definition price_then_name :: doc where
  "price_then_name =
     \<lparr>select_one =
        (\<lambda>s. if s = asc ''.price'' then SelFound (elem ''Out of stock'')
             else if s = asc ''.product-title'' then SelFound (elem ''Dolo 650 Tablet'')
             else SelNone),
      get_text = asc ''Dolo 650 Tablet Out of stock'', find_all_img = [],
      find_all_ld_json = [], find_og_image = None\<rparr>"



definition text_only :: "string \<Rightarrow> doc" where
  "text_only t =
     \<lparr>select_one = (\<lambda>s. SelNone), get_text = asc t, find_all_img = [],
      find_all_ld_json = [], find_og_image = None\<rparr>"

definition image_viewer_page :: doc where
  "image_viewer_page =
     \<lparr>select_one =
        (\<lambda>s. if s = asc ''.ProductImage img''
             then SelFound (img ''https://www.1mg.com/images/dolo.png/view'')
             else SelNone),
      get_text = [], find_all_img = [], find_all_ld_json = [], find_og_image = None\<rparr>"

definition relative_image_page :: doc where
  "relative_image_page =
     \<lparr>select_one =
        (\<lambda>s. if s = asc ''img[class*='product-image']'' then SelFound (img ''/logo.svg'')
             else if s = asc ''.ProductImage img'' then SelFound (img ''//cdn.site.com/x.JPG'')
             else SelNone),
      get_text = [], find_all_img = [], find_all_ld_json = [], find_og_image = None\<rparr>"

text \<open>
  A page where every extractor meets an exception: each selector raises, as does
  \<open>json.loads\<close> on the one script of structured data.
\<close>

definition raising_page :: doc where
  "raising_page =
     \<lparr>select_one = (\<lambda>s. SelRaises), get_text = [], find_all_img = [],
      find_all_ld_json = [LdOtherError], find_og_image = None\<rparr>"

text \<open>
  In the words of the specification, where a currency marker is a currency symbol or
  the token \<open>Rs\<close>: a currency amount is the rupee sign or \<open>Rs\<close> (with or without a
  dot), white space and a number.
\<close>

definition currency_amount :: re where
  "currency_amount =
     seqs [Alt (Lit Rupee) (Seq (str (asc ''Rs'')) (Opt (Lit (Chr CHR ''.'')))), ws, number]"

definition join_root :: urljoin where
  "join_root base_url u = Some (asc ''https://www.1mg.com'' @ u)"

text \<open>
  In the words of the specification: the path of a URL, the URL up to its query or
  fragment, ends with one of the image extensions.
\<close>

definition url_path :: "pstr \<Rightarrow> pstr" where
  "url_path u = takeWhile (\<lambda>c. c \<noteq> Chr CHR ''?'' \<and> c \<noteq> Chr CHR ''#'') u"

definition path_ends_with_image_ext :: "pstr \<Rightarrow> bool" where
  "path_ends_with_image_ext u = list_ex (\<lambda>ext. endswith (lower (url_path u)) ext) image_exts"

section \<open>The number a pattern captures\<close>

lemma star_digit_step:
  "ms ic (Star Digit) (c # cs, g) =
     (if is_digit c then ms ic (Star Digit) (cs, g) @ [(c # cs, g)] else [(c # cs, g)])"
  by (subst ms.simps(9)) (simp add: ms.simps(3))

lemma star_digit_nil: "ms ic (Star Digit) ([], g) = [([], g)]"
  by (subst ms.simps(9)) (simp add: ms.simps(3))

lemma star_digit_results:
  "t \<in> set (ms ic (Star Digit) (s, g)) \<Longrightarrow>
     \<exists>ds. s = ds @ fst t \<and> list_all is_digit ds \<and> snd t = g"
proof (induction s arbitrary: t)
  case Nil
  then show ?case by (simp add: star_digit_nil)
next
  case (Cons c cs)
  show ?case
  proof (cases "is_digit c \<and> t \<in> set (ms ic (Star Digit) (cs, g))")
    case True
    then obtain ds where "cs = ds @ fst t" "list_all is_digit ds" "snd t = g"
      using Cons.IH by blast
    then have "c # cs = (c # ds) @ fst t \<and> list_all is_digit (c # ds) \<and> snd t = g"
      using True by simp
    then show ?thesis by blast
  next
    case False
    then have "t = (c # cs, g)"
      using Cons.prems by (auto simp add: star_digit_step split: if_splits)
    then have "c # cs = [] @ fst t \<and> list_all is_digit [] \<and> snd t = g" by simp
    then show ?thesis by blast
  qed
qed

lemma plus_digit_step:
  "ms ic (Plus Digit) (c # cs, g) = (if is_digit c then ms ic (Star Digit) (cs, g) else [])"
  by (simp add: Plus_def ms.simps(7) ms.simps(3))

lemma plus_digit_nil: "ms ic (Plus Digit) ([], g) = []"
  by (simp add: Plus_def ms.simps(7) ms.simps(3))

lemma plus_digit_results:
  assumes "t \<in> set (ms ic (Plus Digit) (s, g))"
  shows "\<exists>ds. ds \<noteq> [] \<and> s = ds @ fst t \<and> list_all is_digit ds \<and> snd t = g"
proof (cases s)
  case Nil
  then show ?thesis using assms by (simp add: plus_digit_nil)
next
  case (Cons c cs)
  then have c: "is_digit c" and "t \<in> set (ms ic (Star Digit) (cs, g))"
    using assms by (auto simp add: plus_digit_step split: if_splits)
  then obtain ds where "cs = ds @ fst t" "list_all is_digit ds" "snd t = g"
    using star_digit_results by blast
  then have "c # ds \<noteq> [] \<and> s = (c # ds) @ fst t \<and> list_all is_digit (c # ds) \<and> snd t = g"
    using c Cons by simp
  then show ?thesis by blast
qed

lemma digits_then_rest:
  assumes "list_all is_digit ds" and "rest = [] \<or> \<not> is_digit (hd rest)"
  shows "takeWhile is_digit (ds @ rest) = ds \<and> dropWhile is_digit (ds @ rest) = rest"
proof -
  have base: "takeWhile is_digit rest = [] \<and> dropWhile is_digit rest = rest"
    using assms(2) by (cases rest) auto
  show ?thesis
    using assms(1) base by (induction ds) auto
qed

lemma lower_char_dot: "lower_char x = CHR ''.'' \<longleftrightarrow> x = CHR ''.''"
proof -
  have "(of_char (lower_char x) :: nat) = 46 \<longleftrightarrow> (of_char x :: nat) = 46"
    by (auto simp add: lower_char_def Let_def)
  moreover have "(of_char c :: nat) = 46 \<longleftrightarrow> c = CHR ''.''" for c
    using of_char_eq_iff [of c "CHR ''.''", where ?'a = nat] by simp
  ultimately show ?thesis by simp
qed

lemma dot_step:
  "ms ic (Lit (Chr CHR ''.'')) (c # cs, g) = (if c = Chr CHR ''.'' then [(cs, g)] else [])"
proof (cases c)
  case (Chr x)
  show ?thesis
    using Chr lower_char_dot [of x] lower_char_dot [of "CHR ''.''"]
    by (auto simp add: ms.simps(1) same_char_def)
next
  case Rupee
  then show ?thesis by (simp add: ms.simps(1) same_char_def)
qed

lemma dot_nil: "ms ic (Lit (Chr CHR ''.'')) ([], g) = []"
  by (simp add: ms.simps(1))

lemma number_results:
  assumes "t \<in> set (ms ic number (s, g))"
  shows "is_decimal (snd t)"
proof -
  let ?frac = "Seq (Lit (Chr CHR ''.'')) (Plus Digit)"
  from assms obtain r where r: "r \<in> set (ms ic (Seq (Plus Digit) (Opt ?frac)) (s, g))"
    and t: "snd t = take (length s - length (fst r)) s"
    by (auto simp add: number_def ms.simps(11))
  from r obtain m where m: "m \<in> set (ms ic (Plus Digit) (s, g))"
    and rm: "r \<in> set (ms ic (Opt ?frac) m)"
    by (auto simp add: ms.simps(7))
  from m obtain ds where ds: "ds \<noteq> []" "s = ds @ fst m" "list_all is_digit ds"
    using plus_digit_results by blast
  from rm have "r = m \<or> r \<in> set (ms ic ?frac m)"
    by (auto simp add: Opt_def ms.simps(8) ms.simps(6))
  then show ?thesis
  proof
    assume "r = m"
    then have "snd t = ds" using t ds by simp
    moreover have tw: "takeWhile is_digit ds = ds" and dw: "dropWhile is_digit ds = []"
      using digits_then_rest [OF ds(3), of "[]"] by simp_all
    have "is_decimal ds"
      unfolding is_decimal_def Let_def tw dw using ds(1) by simp
    ultimately show ?thesis by simp
  next
    assume a: "r \<in> set (ms ic ?frac m)"
    obtain rest g' where mm: "m = (rest, g')" by (cases m)
    from a mm obtain n where n: "n \<in> set (ms ic (Lit (Chr CHR ''.'')) (rest, g'))"
      and rn: "r \<in> set (ms ic (Plus Digit) n)"
      by (auto simp add: ms.simps(7))
    from n obtain cs where cs: "rest = Chr CHR ''.'' # cs" and nn: "n = (cs, g')"
      by (cases rest) (auto simp add: dot_nil dot_step split: if_splits)
    from rn nn obtain es where es: "es \<noteq> []" "cs = es @ fst r" "list_all is_digit es"
      using plus_digit_results by blast
    have "s = (ds @ Chr CHR ''.'' # es) @ fst r"
      using ds mm cs es by simp
    then have "snd t = ds @ Chr CHR ''.'' # es"
      using t by simp
    moreover have tw: "takeWhile is_digit (ds @ Chr CHR ''.'' # es) = ds"
      and dw: "dropWhile is_digit (ds @ Chr CHR ''.'' # es) = Chr CHR ''.'' # es"
      using digits_then_rest [OF ds(3), of "Chr CHR ''.'' # es"] by simp_all
    have "is_decimal (ds @ Chr CHR ''.'' # es)"
      unfolding is_decimal_def Let_def tw dw using ds(1) es(1) es(3) by simp
    ultimately show ?thesis by simp
  qed
qed

lemma atom_keeps: "t \<in> set (atom p s) \<Longrightarrow> snd t = snd s"
  by (cases "(p, s)" rule: atom.cases) (auto split: if_splits)

lemma no_group_keeps:
  "no_group r \<Longrightarrow> t \<in> set (ms ic r s) \<Longrightarrow> snd t = snd s"
proof (induction ic r s arbitrary: t rule: ms.induct)
  case (7 ic r1 r2 s)
  from "7.prems" obtain m where m: "m \<in> set (ms ic r1 s)" and t: "t \<in> set (ms ic r2 m)"
    by (auto simp add: ms.simps(7))
  have "snd m = snd s" using "7.IH"(1) "7.prems"(1) m by simp
  moreover have "snd t = snd m" using "7.IH"(2) [OF m] "7.prems"(1) t by simp
  ultimately show ?case by simp
next
  case (8 ic r1 r2 s)
  have ng: "no_group r1" "no_group r2" using "8.prems"(1) by simp_all
  have "t \<in> set (ms ic r1 s) \<or> t \<in> set (ms ic r2 s)"
    using "8.prems"(2) by (simp add: ms.simps(8))
  then show ?case
    using "8.IH"(1) [OF ng(1)] "8.IH"(2) [OF ng(2)] by blast
next
  case (9 ic r s)
  from "9.prems"(2) have "t = s \<or>
      (\<exists>m \<in> set (filter (\<lambda>t. length (fst t) < length (fst s)) (ms ic r s)).
          t \<in> set (ms ic (Star r) m))"
    by (subst (asm) ms.simps(9)) auto
  then show ?case
  proof
    assume "t = s" then show ?thesis by simp
  next
    assume "\<exists>m \<in> set (filter (\<lambda>t. length (fst t) < length (fst s)) (ms ic r s)).
          t \<in> set (ms ic (Star r) m)"
    then obtain m where m: "m \<in> set (filter (\<lambda>t. length (fst t) < length (fst s)) (ms ic r s))"
      and t: "t \<in> set (ms ic (Star r) m)" by blast
    have "snd m = snd s" using "9.IH"(1) "9.prems"(1) m by simp
    moreover have "snd t = snd m" using "9.IH"(2) [OF m] "9.prems"(1) t by simp
    ultimately show ?thesis by simp
  qed
next
  case (10 ic r s)
  from "10.prems"(2) have "t = s \<or>
      (\<exists>m \<in> set (filter (\<lambda>t. length (fst t) < length (fst s)) (ms ic r s)).
          t \<in> set (ms ic (LazyStar r) m))"
    by (subst (asm) ms.simps(10)) auto
  then show ?case
  proof
    assume "t = s" then show ?thesis by simp
  next
    assume "\<exists>m \<in> set (filter (\<lambda>t. length (fst t) < length (fst s)) (ms ic r s)).
          t \<in> set (ms ic (LazyStar r) m)"
    then obtain m where m: "m \<in> set (filter (\<lambda>t. length (fst t) < length (fst s)) (ms ic r s))"
      and t: "t \<in> set (ms ic (LazyStar r) m)" by blast
    have "snd m = snd s" using "10.IH"(1) "10.prems"(1) m by simp
    moreover have "snd t = snd m" using "10.IH"(2) [OF m] "10.prems"(1) t by simp
    ultimately show ?thesis by simp
  qed
next
  case (11 ic r s)
  then show ?case by simp
next
  case (12 ic r s)
  then show ?case by (auto simp add: ms.simps(12) split: if_splits)
qed (auto simp add: ms.simps dest: atom_keeps)

lemma no_group_seqs: "list_all no_group rs \<Longrightarrow> no_group (seqs rs)"
  by (induction rs) auto

lemma no_group_str: "no_group (str w)"
  by (induction w) auto

lemma number_in_seqs:
  assumes "list_all no_group post" and "t \<in> set (ms ic (seqs (pre @ number # post)) s)"
  shows "is_decimal (snd t)"
  using assms(2)
proof (induction pre arbitrary: s)
  case Nil
  then obtain m where m: "m \<in> set (ms ic number s)" and t: "t \<in> set (ms ic (seqs post) m)"
    by (auto simp add: ms.simps(7))
  have "snd t = snd m"
    using no_group_keeps [OF no_group_seqs [OF assms(1)] t] .
  moreover have "is_decimal (snd m)"
    using number_results [of m ic "fst s" "snd s"] m by simp
  ultimately show ?case by simp
next
  case (Cons p pre)
  then obtain m where "t \<in> set (ms ic (seqs (pre @ number # post)) m)"
    by (auto simp add: ms.simps(7))
  then show ?case using Cons.IH by blast
qed

lemma search_group_result:
  "search_group ic r s = Some v \<Longrightarrow> \<exists>s' t. t \<in> set (ms ic r (s', [])) \<and> v = snd t"
proof (induction s)
  case Nil
  then obtain t ts where "ms ic r ([], []) = t # ts" and "v = snd t"
    by (cases "ms ic r ([], [])") (auto simp add: search_group_def)
  then have "t \<in> set (ms ic r ([], [])) \<and> v = snd t" by simp
  then show ?case by blast
next
  case (Cons c cs)
  show ?case
  proof (cases "ms ic r (c # cs, [])")
    case Nil
    then have "search_group ic r cs = Some v"
      using Cons.prems by (simp add: search_group_def)
    then show ?thesis using Cons.IH by blast
  next
    case (Cons t ts)
    then have "v = snd t" using Cons.prems by (simp add: search_group_def)
    moreover have "t \<in> set (ms ic r (c # cs, []))" using Cons by simp
    ultimately show ?thesis by blast
  qed
qed

lemma first_group_result:
  "first_group ic rs s = Some v \<Longrightarrow> \<exists>r \<in> set rs. search_group ic r s = Some v"
  by (induction rs) (auto split: option.splits)

text \<open>
  The value of an MRP pattern is a decimal, so that \<open>float\<close> reads it: the text given
  to \<open>float_fmt2\<close> is made of digits around one dot.
\<close>

lemma mrp_value_is_decimal:
  assumes "first_group ic mrp_patterns s = Some v"
  shows "is_decimal v"
proof -
  obtain r where r: "r \<in> set mrp_patterns" and v: "search_group ic r s = Some v"
    using first_group_result [OF assms] by blast
  obtain s' t where t: "t \<in> set (ms ic r (s', []))" and vt: "v = snd t"
    using search_group_result [OF v] by blast
  have "\<exists>pre. r = seqs (pre @ number # []) \<and> True"
  proof -
    have "r = seqs ([str (asc ''MRP''), ws, Lit Rupee, ws] @ number # []) \<or>
          r = seqs ([str (asc ''MRP''), ws, str (asc ''Rs''), Opt (Lit (Chr CHR ''.'')), ws] @ number # []) \<or>
          r = seqs ([str (asc ''Maximum Retail Price''), ws, Lit Rupee, ws] @ number # [])"
      using r unfolding mrp_patterns_def by simp
    then show ?thesis by blast
  qed
  then obtain pre where "r = seqs (pre @ number # [])" by blast
  then show ?thesis
    using number_in_seqs [of "[]" t ic pre "(s', [])"] t vt by simp
qed

section \<open>The batch and its records\<close>

lemma scrape_medicine_url: "url (scrape_medicine uj response u) = u"
  by (cases response) (simp_all add: scrape_medicine_def create_error_record_def Let_def)

lemma batch_loop_urls:
  assumes "save_progress \<longrightarrow> to_csv w = (\<lambda>i rs. None)"
  shows "map url (batch_loop w save_progress i urls results) = map url results @ urls"
  using assms
proof (induction urls arbitrary: i results)
  case Nil
  then show ?case by simp
next
  case (Cons u urls)
  show ?case
  proof (cases "save_progress \<and> i mod 5 = 0")
    case True
    then have "to_csv w i (results @ [scrape_medicine (urljoin_of w) (fetch w i u) u]) = None"
      using Cons.prems by simp
    then show ?thesis
      using True Cons.IH [OF Cons.prems] by (simp add: Let_def scrape_medicine_url)
  next
    case False
    then show ?thesis
      using Cons.IH [OF Cons.prems] by (auto simp add: Let_def scrape_medicine_url)
  qed
qed

text \<open>
  When no progress file fails to be written (or none is written), the batch has one
  record for each URL, in the order of the URLs, whatever the requests meet.
\<close>

lemma scrape_medicines_batch_urls:
  assumes "save_progress \<longrightarrow> to_csv w = (\<lambda>i rs. None)"
  shows "map url (scrape_medicines_batch w urls save_progress) = urls"
  using batch_loop_urls [OF assms, where i = 1 and urls = urls and results = "[]"]
  by (simp add: scrape_medicines_batch_def)

lemma scrape_medicines_batch_length:
  assumes "save_progress \<longrightarrow> to_csv w = (\<lambda>i rs. None)"
  shows "length (scrape_medicines_batch w urls save_progress) = length urls"
  using scrape_medicines_batch_urls [OF assms, where urls = urls] by (metis length_map)

text \<open>
  C1 (the batch returns exactly one record for each URL, in order). The code breaks
  this when a progress file cannot be written: the record of the fifth URL is already in
  the list when \<open>to_csv\<close> raises, and the handler of the loop adds an error record for
  the same URL. Five URLs then give six records, the last two for the fifth URL.
\<close>

theorem batch_csv_failure_adds_record:
  "length (scrape_medicines_batch csv_denied five_urls True) = 6 \<and>
   map url (scrape_medicines_batch csv_denied five_urls True) =
     five_urls @ [asc ''https://www.1mg.com/drugs/e-5''] \<and>
   map status (scrape_medicines_batch csv_denied five_urls True) =
     replicate 5 (asc ''Success'') @ [asc ''Permission denied'']"
  by code_simp

text \<open>
  C2 (a failure of the request or any exception during extraction gives an error
  record). The claim fails for an exception during extraction: every extractor catches
  what it raises and goes on, so a page whose selectors all raise gives a record with
  status \<open>Success\<close> and \<open>N/A\<close> in its data fields, not an error record.
\<close>

theorem extraction_exception_gives_success_counterexample:
  "scrape_medicine no_urljoin (Soup raising_page)
     (asc ''https://www.1mg.com/drugs/dolo-650-tablet-74467'') =
     \<lparr>name = NA, mrp = NA, discounted_price = NA, price = NA, quantity = NA, image = NA,
      manufacturer = NA, composition = NA,
      url = asc ''https://www.1mg.com/drugs/dolo-650-tablet-74467'',
      status = asc ''Success''\<rparr>"
  by code_simp

text \<open>
  C2 as amended: when the \<open>try\<close> block of \<open>scrape_medicine\<close> meets an exception
  before the fields are extracted (the request fails, or the delay, the response or
  the parser raises), the function returns a record whose eight data fields are
  \<open>Error\<close>, whose \<open>url\<close> is the URL it was given and whose \<open>status\<close> is
  \<open>Network error: \<close> or \<open>Parsing error: \<close> followed by the text of the exception;
  nothing is raised to the caller. Once the page is parsed the status is
  \<open>Success\<close>, whatever the extractors meet.
\<close>

theorem scrape_medicine_error_record:
  "(response = RequestException e \<or> response = OtherException e \<longrightarrow>
      scrape_medicine uj response u =
        \<lparr>name = asc ''Error'', mrp = asc ''Error'', discounted_price = asc ''Error'',
         price = asc ''Error'', quantity = asc ''Error'', image = asc ''Error'',
         manufacturer = asc ''Error'', composition = asc ''Error'', url = u,
         status = (case response of
                     RequestException _ \<Rightarrow> asc ''Network error: '' @ e
                   | _ \<Rightarrow> asc ''Parsing error: '' @ e)\<rparr>) \<and>
   status (scrape_medicine uj (Soup soup) u) = asc ''Success''"
  by (auto simp add: scrape_medicine_def create_error_record_def Let_def)

theorem scrape_medicine_error_record_witness:
  "scrape_medicine no_urljoin (RequestException (asc ''timed out''))
     (asc ''https://www.1mg.com/drugs/dolo-650-tablet-74467'') =
     \<lparr>name = asc ''Error'', mrp = asc ''Error'', discounted_price = asc ''Error'',
      price = asc ''Error'', quantity = asc ''Error'', image = asc ''Error'',
      manufacturer = asc ''Error'', composition = asc ''Error'',
      url = asc ''https://www.1mg.com/drugs/dolo-650-tablet-74467'',
      status = asc ''Network error: timed out''\<rparr> \<and>
   scrape_medicine no_urljoin (OtherException (asc ''sleep length must be non-negative''))
     (asc ''https://www.1mg.com/drugs/dolo-650-tablet-74467'') =
     \<lparr>name = asc ''Error'', mrp = asc ''Error'', discounted_price = asc ''Error'',
      price = asc ''Error'', quantity = asc ''Error'', image = asc ''Error'',
      manufacturer = asc ''Error'', composition = asc ''Error'',
      url = asc ''https://www.1mg.com/drugs/dolo-650-tablet-74467'',
      status = asc ''Parsing error: sleep length must be non-negative''\<rparr> \<and>
   status (scrape_medicine no_urljoin (Soup raising_page)
     (asc ''https://www.1mg.com/drugs/dolo-650-tablet-74467'')) = asc ''Success''"
  using scrape_medicine_error_record
          [where response = "RequestException (asc ''timed out'')" and e = "asc ''timed out''"
             and uj = no_urljoin and soup = raising_page
             and u = "asc ''https://www.1mg.com/drugs/dolo-650-tablet-74467''"]
        scrape_medicine_error_record
          [where response = "OtherException (asc ''sleep length must be non-negative'')"
             and e = "asc ''sleep length must be non-negative''"
             and uj = no_urljoin and soup = raising_page
             and u = "asc ''https://www.1mg.com/drugs/dolo-650-tablet-74467''"]
  by (simp add: asc_def)

lemma scrape_medicine_price: "price (scrape_medicine uj response u) = discounted_price (scrape_medicine uj response u)"
  by (cases response) (simp_all add: scrape_medicine_def create_error_record_def Let_def)

lemma create_error_record_price: "price (create_error_record u e) = discounted_price (create_error_record u e)"
  by (simp add: create_error_record_def)

lemma batch_loop_price:
  assumes "list_all (\<lambda>r. price r = discounted_price r) results"
  shows "list_all (\<lambda>r. price r = discounted_price r) (batch_loop w save_progress i urls results)"
  using assms
proof (induction urls arbitrary: i results)
  case Nil
  then show ?case by simp
next
  case (Cons u urls)
  let ?r = "scrape_medicine (urljoin_of w) (fetch w i u) u"
  have one: "list_all (\<lambda>r. price r = discounted_price r) (results @ [?r])"
    using Cons.prems by (simp add: scrape_medicine_price)
  have two: "list_all (\<lambda>r. price r = discounted_price r) ((results @ [?r]) @ [create_error_record u e])"
    for e
    using one by (simp add: create_error_record_price)
  show ?case
    using Cons.IH [OF one] Cons.IH [OF two]
    by (auto simp add: Let_def split: option.split)
qed

text \<open>
  C10 (in every record \<open>price\<close> equals \<open>discounted_price\<close>). This holds for the
  record of a page, the error record, and every record of a batch.
\<close>

theorem price_is_discounted_price:
  "price (scrape_medicine uj response u) = discounted_price (scrape_medicine uj response u) \<and>
   price (create_error_record u e) = discounted_price (create_error_record u e) \<and>
   list_all (\<lambda>r. price r = discounted_price r) (scrape_medicines_batch w urls save_progress)"
proof -
  have "list_all (\<lambda>r. price r = discounted_price r) (batch_loop w save_progress 1 urls [])"
    by (rule batch_loop_price) simp
  then show ?thesis
    by (simp add: scrape_medicine_price create_error_record_price scrape_medicines_batch_def)
qed

theorem price_is_discounted_price_witness:
  "map price (scrape_medicines_batch one_timeout five_urls True) =
     map discounted_price (scrape_medicines_batch one_timeout five_urls True) \<and>
   map price (scrape_medicines_batch one_timeout five_urls True) =
     [NA, asc ''Error'', NA, NA, NA]"
proof -
  have "list_all (\<lambda>r. price r = discounted_price r) (scrape_medicines_batch one_timeout five_urls True)"
    using price_is_discounted_price [of no_urljoin "Soup empty_page" "[]" "[]" one_timeout five_urls True]
    by simp
  then have "map price (scrape_medicines_batch one_timeout five_urls True) =
     map discounted_price (scrape_medicines_batch one_timeout five_urls True)"
    by (simp add: list_all_iff)
  moreover have "map price (scrape_medicines_batch one_timeout five_urls True) =
     [NA, asc ''Error'', NA, NA, NA]"
    by code_simp
  ultimately show ?thesis by simp
qed

section \<open>Fields of a page\<close>

text \<open>
  A selector that names a price and finds a text returns what \<open>clean_price_text\<close>
  makes of the text, whatever that is: the \<open>return text\<close> after the test is reached
  when the test fails.
\<close>

lemma extract_field_price_selector:
  assumes "contains (asc ''price'') (lower selector) \<or> contains (asc ''Price'') selector"
    and "select_one soup selector = SelFound element"
    and "etext element \<noteq> []"
  shows "extract_field soup (selector # selectors) = clean_price_text (etext element)"
  using assms by (auto simp add: Let_def)

text \<open>
  C3 (a price selector whose cleaned text is \<open>N/A\<close> is skipped). The code does not
  skip: on a page whose \<open>.price\<close> element reads \<open>Out of stock\<close>, the cleaned text
  is \<open>N/A\<close> and \<open>extract_field\<close> returns \<open>N/A\<close> at once, although the next
  selector of the list finds \<open>Dolo 650 Tablet\<close>.
\<close>

theorem extract_field_returns_cleaned_NA:
  "(case select_one price_then_name (asc ''.price'') of
      SelFound element \<Rightarrow> etext element | _ \<Rightarrow> []) = asc ''Out of stock'' \<and>
   clean_price_text (asc ''Out of stock'') = NA \<and>
   extract_field price_then_name [asc ''.price'', asc ''.product-title''] = NA \<and>
   extract_field price_then_name [asc ''.product-title''] = asc ''Dolo 650 Tablet''"
  by code_simp

section \<open>Parsing a price text\<close>

text \<open>
  C4 (the text of one unlabelled amount, the rupee sign and \<open>199\<close>, gives that amount
  in both fields). The claim fails: no pattern of \<open>parse_price_info\<close> matches an amount
  without a label.
\<close>

theorem unlabelled_price_counterexample:
  "\<not> (pi_mrp (parse_price_info (Rupee # asc ''199'')) = Rupee # asc ''199'' \<and>
      pi_discounted_price (parse_price_info (Rupee # asc ''199'')) = Rupee # asc ''199'')"
  by code_simp

text \<open>
  C4 as amended: the unlabelled amount gives \<open>N/A\<close> in both fields; one amount with a
  label (\<open>MRP\<close>, \<open>Best Price:\<close>) is found for its field and copied into the other.
\<close>

theorem single_labelled_price_mirrored:
  "parse_price_info (Rupee # asc ''199'') = \<lparr>pi_mrp = NA, pi_discounted_price = NA\<rparr> \<and>
   parse_price_info (asc ''MRP '' @ Rupee # asc ''199'') =
     \<lparr>pi_mrp = Rupee # asc ''199'', pi_discounted_price = Rupee # asc ''199''\<rparr> \<and>
   parse_price_info (asc ''Best Price: '' @ Rupee # asc ''199'') =
     \<lparr>pi_mrp = Rupee # asc ''199'', pi_discounted_price = Rupee # asc ''199''\<rparr>"
  by code_simp

text \<open>
  C5 (a value with more than two decimals is rounded to two, as MRP or as discounted
  price). The code rounds only the value of the MRP patterns. A discounted price keeps
  its decimals, and so do the two amounts taken from a text that names \<open>MRP\<close>; the
  MRP of the claim's example is rounded.
\<close>

theorem discounted_price_not_rounded:
  "parse_price_info (asc ''Discounted Price: '' @ Rupee # asc ''50.123'') =
     \<lparr>pi_mrp = Rupee # asc ''50.123'', pi_discounted_price = Rupee # asc ''50.123''\<rparr> \<and>
   parse_price_info (asc ''MRP '' @ Rupee # asc ''34.274'') =
     \<lparr>pi_mrp = Rupee # asc ''34.27'', pi_discounted_price = Rupee # asc ''34.27''\<rparr> \<and>
   parse_price_info (asc ''MRP: '' @ Rupee # asc ''34.274 '' @ Rupee # asc ''30.001'') =
     \<lparr>pi_mrp = Rupee # asc ''34.274'', pi_discounted_price = Rupee # asc ''30.001''\<rparr>"
  by code_simp

lemma rupee_not_NA: "Rupee # v \<noteq> NA"
  by (simp add: NA_def asc_def)

lemma rupee_amount_starts_with_rupee:
  assumes "ms False rupee_amount (c # cs, g) \<noteq> []"
  shows "c = Rupee"
proof (rule ccontr)
  assume "c \<noteq> Rupee"
  then have "atom (same_char False Rupee) (c # cs, g) = []"
    by (auto simp add: same_char_def)
  then have "ms False rupee_amount (c # cs, g) = []"
    by (simp add: rupee_amount_def ms.simps(1) ms.simps(7))
  with assms show False by simp
qed

lemma rupee_amount_not_empty: "ms False rupee_amount ([], g) = []"
  by (simp add: rupee_amount_def ms.simps(1) ms.simps(7))

text \<open>A text with a currency amount contains the rupee sign.\<close>

lemma findall_rupee_amount_in:
  "findall False rupee_amount s \<noteq> [] \<Longrightarrow> Rupee \<in> set s"
proof (induction s)
  case Nil
  then show ?case by (simp add: rupee_amount_not_empty)
next
  case (Cons c cs)
  show ?case
  proof (cases "ms False rupee_amount (c # cs, [])")
    case Nil
    then have "findall False rupee_amount cs \<noteq> []"
      using Cons.prems by simp
    then show ?thesis using Cons.IH by simp
  next
    case (Cons t ts)
    then have "c = Rupee"
      using rupee_amount_starts_with_rupee [of c cs "[]"] by simp
    then show ?thesis by simp
  qed
qed

text \<open>
  C6 (both families of labelled patterns fail, the text names \<open>MRP\<close> and has two
  currency amounts or more: the first amount is the MRP, the second the discounted
  price). The claim fails for amounts written with \<open>Rs\<close>: the step counts the
  amounts that follow a rupee sign only, and a text with two \<open>Rs\<close> amounts, or with
  one amount of each kind, gives \<open>N/A\<close> in both fields.
\<close>

theorem rs_amounts_not_counted_counterexample:
  "first_group True mrp_patterns (join_space (split (asc ''MRP: Rs. 55 Rs. 50''))) = None \<and>
   first_group True discounted_patterns (join_space (split (asc ''MRP: Rs. 55 Rs. 50''))) = None \<and>
   contains (asc ''MRP'') (join_space (split (asc ''MRP: Rs. 55 Rs. 50''))) \<and>
   findall False currency_amount (join_space (split (asc ''MRP: Rs. 55 Rs. 50''))) =
     [asc ''55'', asc ''50''] \<and>
   parse_price_info (asc ''MRP: Rs. 55 Rs. 50'') = \<lparr>pi_mrp = NA, pi_discounted_price = NA\<rparr> \<and>
   findall False currency_amount
     (join_space (split (asc ''MRP: '' @ Rupee # asc ''55 Rs. 50''))) = [asc ''55'', asc ''50''] \<and>
   parse_price_info (asc ''MRP: '' @ Rupee # asc ''55 Rs. 50'') =
     \<lparr>pi_mrp = NA, pi_discounted_price = NA\<rparr>"
  by code_simp

text \<open>
  C6 as amended: when both families of labelled patterns fail and the text, with its
  white space normalised as the function reads it, names \<open>MRP\<close> and has two or more
  amounts that follow a rupee sign (the rupee sign, white space, a number), the first
  of them is the MRP and the second the discounted price. Amounts written with
  \<open>Rs\<close> are not counted.
\<close>

theorem two_amounts_after_failed_labels:
  assumes "first_group True mrp_patterns (join_space (split t)) = None"
    and "first_group True discounted_patterns (join_space (split t)) = None"
    and "contains (asc ''MRP'') (join_space (split t))"
    and "findall False rupee_amount (join_space (split t)) = p0 # p1 # ps"
  shows "parse_price_info t = \<lparr>pi_mrp = Rupee # p0, pi_discounted_price = Rupee # p1\<rparr>"
proof -
  have "Rupee \<in> set (join_space (split t))"
    using findall_rupee_amount_in [of "join_space (split t)"] assms(4) by simp
  then have "found_prices t = \<lparr>pi_mrp = Rupee # p0, pi_discounted_price = Rupee # p1\<rparr>"
    using assms
    by (simp add: found_prices_def both_prices_def labelled_mrp_def labelled_discount_def Let_def)
  then show ?thesis
    by (simp add: parse_price_info_def mirror_def rupee_not_NA)
qed

theorem two_amounts_after_failed_labels_witness:
  "first_group True mrp_patterns
     (join_space (split (asc ''MRP: '' @ Rupee # asc ''55  '' @ Rupee # asc ''50.1''))) = None \<and>
   first_group True discounted_patterns
     (join_space (split (asc ''MRP: '' @ Rupee # asc ''55  '' @ Rupee # asc ''50.1''))) = None \<and>
   contains (asc ''MRP'')
     (join_space (split (asc ''MRP: '' @ Rupee # asc ''55  '' @ Rupee # asc ''50.1''))) \<and>
   findall False rupee_amount
     (join_space (split (asc ''MRP: '' @ Rupee # asc ''55  '' @ Rupee # asc ''50.1''))) =
     [asc ''55'', asc ''50.1''] \<and>
   parse_price_info (asc ''MRP: '' @ Rupee # asc ''55  '' @ Rupee # asc ''50.1'') =
     \<lparr>pi_mrp = Rupee # asc ''55'', pi_discounted_price = Rupee # asc ''50.1''\<rparr>"
proof -
  let ?t = "asc ''MRP: '' @ Rupee # asc ''55  '' @ Rupee # asc ''50.1''"
  have a: "first_group True mrp_patterns (join_space (split ?t)) = None"
    by code_simp
  have b: "first_group True discounted_patterns (join_space (split ?t)) = None"
    by code_simp
  have c: "contains (asc ''MRP'') (join_space (split ?t))"
    by code_simp
  have d: "findall False rupee_amount (join_space (split ?t)) = [asc ''55'', asc ''50.1'']"
    by code_simp
  show ?thesis
    using two_amounts_after_failed_labels [OF a b c d] a b c d by simp
qed

text \<open>
  C7 (when the patterns find exactly one of the two prices, it is copied into the
  other field, so the result never has exactly one \<open>N/A\<close>). \<open>found_prices\<close> is what
  the patterns found, before the copy.
\<close>

theorem parse_price_info_mirrors:
  "(pi_mrp (found_prices t) \<noteq> NA \<and> pi_discounted_price (found_prices t) = NA \<longrightarrow>
      parse_price_info t =
        \<lparr>pi_mrp = pi_mrp (found_prices t), pi_discounted_price = pi_mrp (found_prices t)\<rparr>) \<and>
   (pi_mrp (found_prices t) = NA \<and> pi_discounted_price (found_prices t) \<noteq> NA \<longrightarrow>
      parse_price_info t =
        \<lparr>pi_mrp = pi_discounted_price (found_prices t),
         pi_discounted_price = pi_discounted_price (found_prices t)\<rparr>) \<and>
   (pi_mrp (parse_price_info t) = NA) = (pi_discounted_price (parse_price_info t) = NA)"
  by (auto simp add: parse_price_info_def mirror_def)

theorem parse_price_info_mirrors_witness:
  "pi_mrp (found_prices (asc ''MRP '' @ Rupee # asc ''199'')) = Rupee # asc ''199'' \<and>
   pi_discounted_price (found_prices (asc ''MRP '' @ Rupee # asc ''199'')) = NA \<and>
   parse_price_info (asc ''MRP '' @ Rupee # asc ''199'') =
     \<lparr>pi_mrp = Rupee # asc ''199'', pi_discounted_price = Rupee # asc ''199''\<rparr> \<and>
   pi_mrp (found_prices (asc ''Offer Price: '' @ Rupee # asc ''50.1'')) = NA \<and>
   pi_discounted_price (found_prices (asc ''Offer Price: '' @ Rupee # asc ''50.1'')) =
     Rupee # asc ''50.1'' \<and>
   parse_price_info (asc ''Offer Price: '' @ Rupee # asc ''50.1'') =
     \<lparr>pi_mrp = Rupee # asc ''50.1'', pi_discounted_price = Rupee # asc ''50.1''\<rparr>"
proof -
  have a: "pi_mrp (found_prices (asc ''MRP '' @ Rupee # asc ''199'')) = Rupee # asc ''199''"
    by code_simp
  have b: "pi_discounted_price (found_prices (asc ''MRP '' @ Rupee # asc ''199'')) = NA"
    by code_simp
  have c: "pi_mrp (found_prices (asc ''Offer Price: '' @ Rupee # asc ''50.1'')) = NA"
    by code_simp
  have d: "pi_discounted_price (found_prices (asc ''Offer Price: '' @ Rupee # asc ''50.1'')) =
             Rupee # asc ''50.1''"
    by code_simp
  show ?thesis
    using parse_price_info_mirrors [of "asc ''MRP '' @ Rupee # asc ''199''"]
          parse_price_info_mirrors [of "asc ''Offer Price: '' @ Rupee # asc ''50.1''"]
          a b c d rupee_not_NA
    by simp
qed

section \<open>Quantity of a page\<close>





text \<open>
  When no selector gives a quantity, the same holds for the text of the whole page and
  the first of the patterns, in their order, that matches it.
\<close>

lemma extract_quantity_from_page_text:
  assumes "quantity_loop soup quantity_selectors = None"
    and "first_group True quantity_patterns (get_text soup) = Some quantity_num"
  shows "extract_quantity soup = tablets quantity_num"
  using assms by (simp add: extract_quantity_def)

lemma extract_quantity_examples:
  "extract_quantity (text_only ''15.0 tablets in 1 strip'') = asc ''15 tablets'' \<and>
   extract_quantity (text_only ''2 capsules'') = asc ''2 tablets'' \<and>
   extract_quantity (text_only ''10.5 Strips'') = asc ''10.5 tablets'' \<and>
   extract_quantity (text_only ''no quantity here'') = NA"
  by code_simp

section \<open>Image of a page\<close>

text \<open>
  C9 (the loop over the image selectors returns a URL only if its path ends with an
  image extension). The claim fails: the loop asks whether the URL contains an
  extension, and returns a URL with \<open>.png\<close> inside its path.
\<close>

theorem image_loop_accepts_extension_inside_counterexample:
  "image_loop no_urljoin image_viewer_page (asc ''https://www.1mg.com/drugs/dolo'')
     image_selectors = Some (asc ''https://www.1mg.com/images/dolo.png/view'') \<and>
   \<not> path_ends_with_image_ext (asc ''https://www.1mg.com/images/dolo.png/view'')"
  by code_simp

text \<open>
  C9 as amended: the loop returns a URL only if the URL in lower case contains one of
  \<open>.jpg\<close>, \<open>.jpeg\<close>, \<open>.png\<close>, \<open>.webp\<close>, \<open>.gif\<close>; a URL that contains none
  of them is never returned by the loop.
\<close>

theorem image_loop_accepts_only_with_extension:
  assumes "image_loop uj soup base_url selectors = Some u"
  shows "list_ex (\<lambda>ext. contains ext (lower u))
           (map asc [''.jpg'', ''.jpeg'', ''.png'', ''.webp'', ''.gif''])"
  using assms
proof (induction selectors)
  case Nil
  then show ?case by simp
next
  case (Cons selector selectors)
  then show ?case
    by (auto simp add: has_image_ext_def image_exts_def
             split: sel_result.splits option.splits if_splits)
qed

theorem image_loop_accepts_only_with_extension_witness:
  "image_loop join_root relative_image_page (asc ''https://www.1mg.com/drugs/dolo'')
     image_selectors = Some (asc ''https://cdn.site.com/x.JPG'') \<and>
   list_ex (\<lambda>ext. contains ext (lower (asc ''https://cdn.site.com/x.JPG'')))
     (map asc [''.jpg'', ''.jpeg'', ''.png'', ''.webp'', ''.gif''])"
proof -
  have a: "image_loop join_root relative_image_page (asc ''https://www.1mg.com/drugs/dolo'')
     image_selectors = Some (asc ''https://cdn.site.com/x.JPG'')"
    by code_simp
  show ?thesis
    using image_loop_accepts_only_with_extension [OF a] a by simp
qed

end
